theory Spec2Isabelle
  imports Main
begin

section \<open>Thrown values, promise outcomes and abrupt completion\<close>

text \<open>
  A JavaScript \<^verbatim>\<open>throw\<close> can carry any value. The hooks only look at whether the
  value is an \<^verbatim>\<open>Error\<close> instance, and then at its \<^verbatim>\<open>name\<close> and
  \<^verbatim>\<open>message\<close>; any other thrown value is kept as an opaque description.
\<close>

datatype throwable =
    JsError (name: string) (message: string)
  | NonError string

text \<open>How an awaited promise settles.\<close>

datatype 'a settled =
    Resolved 'a
  | Rejected throwable

text \<open>
  What the synchronous call \<^verbatim>\<open>fetcher({ signal })\<close> does before anything is
  awaited: it throws, or it hands back a promise.
\<close>

datatype fetch_call =
    Throws throwable
  | Returns

text \<open>
  A block of statements finishes normally, by \<^verbatim>\<open>return\<close>, or by throwing. A
  statement is a function from the state of the hook to its completion and the state
  it leaves behind; state updates made before a throw stay.
\<close>

datatype completion =
    Normal
  | Return
  | Throw throwable

type_synonym 's stmt = "'s \<Rightarrow> completion \<times> 's"

definition call :: "('s \<Rightarrow> 's) \<Rightarrow> 's stmt" where
  "call setter s = (Normal, setter s)"

definition skip :: "'s stmt" where
  "skip s = (Normal, s)"

definition throw :: "throwable \<Rightarrow> 's stmt" where
  "throw e s = (Throw e, s)"

definition return_now :: "'s stmt" where
  "return_now s = (Return, s)"

definition seq :: "'s stmt \<Rightarrow> 's stmt \<Rightarrow> 's stmt" where
  "seq p q s = (case p s of (Normal, s1) \<Rightarrow> q s1 | (c, s1) \<Rightarrow> (c, s1))"

text \<open>
  \<^verbatim>\<open>try { body } catch (e) { handler e } finally { fin }\<close>: the handler runs when the
  body throws; the finally block runs whatever happened, also after a \<^verbatim>\<open>return\<close>
  inside the handler, and the completion of the whole statement is the pending one
  unless the finally block itself completes abruptly.
\<close>

definition try_catch_finally ::
  "'s stmt \<Rightarrow> (throwable \<Rightarrow> 's stmt) \<Rightarrow> 's stmt \<Rightarrow> 's stmt" where
  "try_catch_finally body handler fin s =
     (let (c1, s1) = body s;
          (c2, s2) = (case c1 of Throw e \<Rightarrow> handler e s1 | _ \<Rightarrow> (c1, s1));
          (c3, s3) = fin s2
      in (case c3 of Normal \<Rightarrow> (c2, s3) | _ \<Rightarrow> (c3, s3)))"

text \<open>\<^verbatim>\<open>error instanceof Error && error.name === 'AbortError'\<close>\<close>

definition isAbortError :: "throwable \<Rightarrow> bool" where
  "isAbortError e = (case e of JsError n m \<Rightarrow> n = ''AbortError'' | NonError x \<Rightarrow> False)"

text \<open>\<^verbatim>\<open>error instanceof Error ? error.message : 'An unknown error occurred'\<close>\<close>

definition errorMessage :: "throwable \<Rightarrow> string" where
  "errorMessage e =
     (case e of JsError n m \<Rightarrow> m | NonError x \<Rightarrow> ''An unknown error occurred'')"

text \<open>A settlement that is a cancellation: a rejection with an \<^verbatim>\<open>AbortError\<close>.\<close>

definition cancellation :: "'a settled \<Rightarrow> bool" where
  "cancellation out = (case out of Resolved v \<Rightarrow> False | Rejected e \<Rightarrow> isAbortError e)"


section \<open>The generic loader \<^verbatim>\<open>useQuery\<close>\<close>

text \<open>
  \<^verbatim>\<open>interface QueryResult<T> { loading: boolean; data: T | null; errors: string[] }\<close>,
  the three \<^verbatim>\<open>useState\<close> slots of the hook.
\<close>

record 'a QueryResult =
  loading :: bool
  data :: "'a option"
  errors :: "string list"

definition setLoading :: "bool \<Rightarrow> 'a QueryResult \<Rightarrow> 'a QueryResult" where
  "setLoading b r = r\<lparr>loading := b\<rparr>"

definition setData :: "'a option \<Rightarrow> 'a QueryResult \<Rightarrow> 'a QueryResult" where
  "setData d r = r\<lparr>data := d\<rparr>"

definition setErrors :: "string list \<Rightarrow> 'a QueryResult \<Rightarrow> 'a QueryResult" where
  "setErrors es r = r\<lparr>errors := es\<rparr>"

text \<open>
  The initial values of the slots:
  \<^verbatim>\<open>useState(true)\<close>, \<^verbatim>\<open>useState(null)\<close>, \<^verbatim>\<open>useState([])\<close>.
\<close>

definition initialResult :: "'a QueryResult" where
  "initialResult = \<lparr>loading = True, data = None, errors = []\<rparr>"

text \<open>The \<^verbatim>\<open>catch\<close> and \<^verbatim>\<open>finally\<close> blocks of \<^verbatim>\<open>loadData\<close>.\<close>

definition catch_block :: "throwable \<Rightarrow> 'a QueryResult stmt" where
  "catch_block e =
     (if isAbortError e then return_now
      else seq (call (setErrors [errorMessage e])) (call (setData None)))"

definition finally_block :: "'a QueryResult stmt" where
  "finally_block = call (setLoading False)"

text \<open>
  \<^verbatim>\<open>loadData\<close> is an async function with one \<^verbatim>\<open>await\<close>, inside the \<^verbatim>\<open>try\<close>
  block. Its run is cut at that point.

  \<^item> When the call of the fetcher throws, the whole function runs in one go:
    \<^verbatim>\<open>setLoading(true)\<close>, the throw, the handler, the finally block.
  \<^item> When the call returns a promise, the function stops after
    \<^verbatim>\<open>setLoading(true)\<close> and waits.
  \<^item> When the promise settles, the function resumes inside the \<^verbatim>\<open>try\<close> block: a
    resolution runs \<^verbatim>\<open>setData(result); setErrors([])\<close>, a rejection is thrown at
    the \<^verbatim>\<open>await\<close>; handler and finally block follow as usual.

  Each of the three pieces runs to completion without interruption, and React 18 applies
  the state updates of one piece together.

  The value a fetcher resolves with is stored as it is. The slot has the type
  \<^verbatim>\<open>T | null\<close>, and nothing keeps a fetcher from resolving with \<^verbatim>\<open>null\<close> or
  \<^verbatim>\<open>undefined\<close>: a resolved value is therefore an \<open>'a option\<close>, with \<open>None\<close> for
  the two absent values, and \<^verbatim>\<open>setData(result)\<close> stores exactly that.
\<close>

definition loadData_throws :: "throwable \<Rightarrow> 'a QueryResult stmt" where
  "loadData_throws e =
     try_catch_finally (seq (call (setLoading True)) (throw e)) catch_block finally_block"

definition loadData_suspend :: "'a QueryResult stmt" where
  "loadData_suspend = call (setLoading True)"

definition loadData_resume :: "'a option settled \<Rightarrow> 'a QueryResult stmt" where
  "loadData_resume out =
     try_catch_finally
       (case out of
          Resolved v \<Rightarrow> seq (call (setData v)) (call (setErrors []))
        | Rejected e \<Rightarrow> throw e)
       catch_block finally_block"

text \<open>
  The hook instance. Every run of the effect creates an \<^verbatim>\<open>AbortController\<close>;
  controllers are numbered in the order of their creation. \<open>current\<close> is the run whose
  cleanup function React holds, \<open>aborted\<close> lists the controllers whose \<^verbatim>\<open>abort()\<close>
  has been called, \<open>awaiting\<close> lists the runs of \<^verbatim>\<open>loadData\<close> that wait for their
  promise.
\<close>

record 'a hook =
  result :: "'a QueryResult"
  controllers :: nat
  current :: "nat option"
  aborted :: "nat list"
  awaiting :: "nat list"

definition mount :: "'a hook" where
  "mount = \<lparr>result = initialResult, controllers = 0, current = None,
            aborted = [], awaiting = []\<rparr>"

text \<open>The cleanup function of the effect: \<^verbatim>\<open>abortController.abort()\<close>, nothing else.\<close>

definition cleanup :: "'a hook \<Rightarrow> 'a hook" where
  "cleanup h =
     (case current h of
        None \<Rightarrow> h
      | Some i \<Rightarrow> h\<lparr>current := None, aborted := i # aborted h\<rparr>)"

text \<open>The body of the effect: a new controller, then \<^verbatim>\<open>loadData()\<close>.\<close>

definition effect :: "fetch_call \<Rightarrow> 'a hook \<Rightarrow> 'a hook" where
  "effect c h =
     (let i = controllers h;
          h1 = h\<lparr>controllers := Suc i, current := Some i\<rparr>
      in (case c of
            Throws e \<Rightarrow> h1\<lparr>result := snd (loadData_throws e (result h1))\<rparr>
          | Returns \<Rightarrow> h1\<lparr>result := snd (loadData_suspend (result h1)),
                          awaiting := i # awaiting h1\<rparr>))"

text \<open>
  The promise of run \<open>i\<close> settles and \<^verbatim>\<open>loadData\<close> resumes. A promise settles once:
  a run that is not waiting is not resumed.
\<close>

definition settle :: "nat \<Rightarrow> 'a option settled \<Rightarrow> 'a hook \<Rightarrow> 'a hook" where
  "settle i out h =
     (if i \<in> set (awaiting h)
      then h\<lparr>result := snd (loadData_resume out (result h)),
             awaiting := removeAll i (awaiting h)\<rparr>
      else h)"

text \<open>
  What can happen to a hook instance. \<open>Run\<close> is the effect running on mount or because
  the \<^verbatim>\<open>fetcher\<close> dependency changed: React first calls the cleanup of the previous
  run, if there is one, then the effect. \<open>Unmount\<close> calls the cleanup only; a \<open>Run\<close>
  after it is the second mount of React's strict mode, on the same slots. \<open>Settle\<close> is
  the promise of a run settling, at any later time and in any order.
\<close>

datatype 'a event =
    Run fetch_call
  | Unmount
  | Settle nat "'a settled"

fun step :: "'a option event \<Rightarrow> 'a hook \<Rightarrow> 'a hook" where
  "step (Run c) h = effect c (cleanup h)"
| "step Unmount h = cleanup h"
| "step (Settle i out) h = settle i out h"

fun run :: "'a option event list \<Rightarrow> 'a hook \<Rightarrow> 'a hook" where
  "run [] h = h"
| "run (ev # evs) h = run evs (step ev h)"


section \<open>The loader \<^verbatim>\<open>useLoadData\<close> with a mounted flag\<close>

text \<open>
  The three slots: \<^verbatim>\<open>useState<T | null>(null)\<close>, \<^verbatim>\<open>useState(true)\<close>,
  \<^verbatim>\<open>useState<string | null>(null)\<close>.
\<close>

record 'a LoadState =
  ld_data :: "'a option"
  ld_loading :: bool
  ld_error :: "string option"

definition ld_setData :: "'a option \<Rightarrow> 'a LoadState \<Rightarrow> 'a LoadState" where
  "ld_setData d r = r\<lparr>ld_data := d\<rparr>"

definition ld_setLoading :: "bool \<Rightarrow> 'a LoadState \<Rightarrow> 'a LoadState" where
  "ld_setLoading b r = r\<lparr>ld_loading := b\<rparr>"

definition ld_setError :: "string option \<Rightarrow> 'a LoadState \<Rightarrow> 'a LoadState" where
  "ld_setError e r = r\<lparr>ld_error := e\<rparr>"

definition ld_initial :: "'a LoadState" where
  "ld_initial = \<lparr>ld_data = None, ld_loading = True, ld_error = None\<rparr>"

text \<open>\<^verbatim>\<open>e instanceof Error ? e.message : 'Failed to fetch data'\<close>\<close>

definition ld_errorMessage :: "throwable \<Rightarrow> string" where
  "ld_errorMessage e = (case e of JsError n m \<Rightarrow> m | NonError x \<Rightarrow> ''Failed to fetch data'')"

text \<open>
  The parts of \<^verbatim>\<open>load\<close>. \<^verbatim>\<open>setLoading(true); setError(null)\<close> run before the
  \<^verbatim>\<open>try\<close>; every update after the \<^verbatim>\<open>await\<close> is behind \<^verbatim>\<open>if (isMounted)\<close>.
  The flag is a variable of the effect's closure, so the pieces take its value at the
  moment they run. As in \<^verbatim>\<open>useQuery\<close>, the slot \<^verbatim>\<open>T | null\<close> gets the resolved
  value as it is, \<open>None\<close> when the fetcher resolves with \<^verbatim>\<open>null\<close>.
\<close>

definition load_prologue :: "'a LoadState stmt" where
  "load_prologue = seq (call (ld_setLoading True)) (call (ld_setError None))"

definition load_catch :: "bool \<Rightarrow> throwable \<Rightarrow> 'a LoadState stmt" where
  "load_catch isMounted e =
     (if isMounted then call (ld_setError (Some (ld_errorMessage e))) else skip)"

definition load_finally :: "bool \<Rightarrow> 'a LoadState stmt" where
  "load_finally isMounted = (if isMounted then call (ld_setLoading False) else skip)"

definition load_throws :: "bool \<Rightarrow> throwable \<Rightarrow> 'a LoadState stmt" where
  "load_throws isMounted e =
     seq load_prologue
       (try_catch_finally (throw e) (load_catch isMounted) (load_finally isMounted))"

definition load_resume :: "bool \<Rightarrow> 'a option settled \<Rightarrow> 'a LoadState stmt" where
  "load_resume isMounted out =
     try_catch_finally
       (case out of
          Resolved v \<Rightarrow> (if isMounted then call (ld_setData v) else skip)
        | Rejected e \<Rightarrow> throw e)
       (load_catch isMounted) (load_finally isMounted)"

text \<open>
  The hook instance. \<open>flags\<close> is the store of the \<^verbatim>\<open>isMounted\<close> variables, one
  per run of the effect.
\<close>

record 'a loader =
  ld_state :: "'a LoadState"
  ld_runs :: nat
  ld_current :: "nat option"
  flags :: "nat \<rightharpoonup> bool"
  ld_awaiting :: "nat list"

definition ld_mount :: "'a loader" where
  "ld_mount = \<lparr>ld_state = ld_initial, ld_runs = 0, ld_current = None,
               flags = Map.empty, ld_awaiting = []\<rparr>"

definition isMounted :: "'a loader \<Rightarrow> nat \<Rightarrow> bool" where
  "isMounted h i = (flags h i = Some True)"

text \<open>\<^verbatim>\<open>return () => { isMounted = false; }\<close>\<close>

definition ld_cleanup :: "'a loader \<Rightarrow> 'a loader" where
  "ld_cleanup h =
     (case ld_current h of
        None \<Rightarrow> h
      | Some i \<Rightarrow> h\<lparr>ld_current := None, flags := (flags h)(i \<mapsto> False)\<rparr>)"

text \<open>\<^verbatim>\<open>let isMounted = true; ... load();\<close>\<close>

definition ld_effect :: "fetch_call \<Rightarrow> 'a loader \<Rightarrow> 'a loader" where
  "ld_effect c h =
     (let i = ld_runs h;
          h1 = h\<lparr>ld_runs := Suc i, ld_current := Some i, flags := (flags h)(i \<mapsto> True)\<rparr>
      in (case c of
            Throws e \<Rightarrow> h1\<lparr>ld_state := snd (load_throws (isMounted h1 i) e (ld_state h1))\<rparr>
          | Returns \<Rightarrow> h1\<lparr>ld_state := snd (load_prologue (ld_state h1)),
                          ld_awaiting := i # ld_awaiting h1\<rparr>))"

definition ld_settle :: "nat \<Rightarrow> 'a option settled \<Rightarrow> 'a loader \<Rightarrow> 'a loader" where
  "ld_settle i out h =
     (if i \<in> set (ld_awaiting h)
      then h\<lparr>ld_state := snd (load_resume (isMounted h i) out (ld_state h)),
             ld_awaiting := removeAll i (ld_awaiting h)\<rparr>
      else h)"

fun ld_step :: "'a option event \<Rightarrow> 'a loader \<Rightarrow> 'a loader" where
  "ld_step (Run c) h = ld_effect c (ld_cleanup h)"
| "ld_step Unmount h = ld_cleanup h"
| "ld_step (Settle i out) h = ld_settle i out h"

fun ld_run :: "'a option event list \<Rightarrow> 'a loader \<Rightarrow> 'a loader" where
  "ld_run [] h = h"
| "ld_run (ev # evs) h = ld_run evs (ld_step ev h)"


section \<open>The example fetchers\<close>

text \<open>
  A parsed JSON value. Numbers are restricted to integers: the code only asks whether a
  value is truthy.
\<close>

datatype json =
    JNull
  | JBool bool
  | JNum int
  | JStr string
  | JArr "json list"
  | JObj "(string \<times> json) list"

text \<open>
  The \<^verbatim>\<open>Response\<close> object as far as the fetchers read it: \<^verbatim>\<open>ok\<close>,
  \<^verbatim>\<open>status\<close>, \<^verbatim>\<open>statusText\<close>, and how the promise of \<^verbatim>\<open>json()\<close> settles.
\<close>

record response =
  ok :: bool
  status :: nat
  statusText :: string
  json_body :: "json settled"

text \<open>The Fetch standard sets \<^verbatim>\<open>ok\<close> exactly for the statuses 200 to 299.\<close>

definition standard_response :: "response \<Rightarrow> bool" where
  "standard_response r = (ok r = (200 \<le> status r \<and> status r \<le> 299))"

text \<open>A number in a template literal: its decimal digits.\<close>

definition digit :: "nat \<Rightarrow> char" where
  "digit n = ''0123456789'' ! n"

function show_nat :: "nat \<Rightarrow> string" where
  "show_nat n = (if n < 10 then [digit n] else show_nat (n div 10) @ [digit (n mod 10)])"
  by pat_completeness auto
termination
  by (relation "measure (\<lambda>n. n)") auto

declare show_nat.simps [simp del]

definition isArray :: "json \<Rightarrow> bool" where
  "isArray j = (case j of JArr xs \<Rightarrow> True | _ \<Rightarrow> False)"

text \<open>JavaScript truthiness of a JSON value.\<close>

definition truthy :: "json \<Rightarrow> bool" where
  "truthy j =
     (case j of
        JNull \<Rightarrow> False
      | JBool b \<Rightarrow> b
      | JNum n \<Rightarrow> n \<noteq> 0
      | JStr s \<Rightarrow> s \<noteq> []
      | JArr xs \<Rightarrow> True
      | JObj kvs \<Rightarrow> True)"

text \<open>
  \<^verbatim>\<open>result.data\<close>: a \<^verbatim>\<open>TypeError\<close> on \<^verbatim>\<open>null\<close>, the member of an object when it
  has one, \<^verbatim>\<open>undefined\<close> (here \<open>None\<close>) otherwise.
\<close>

definition get_data :: "json \<Rightarrow> throwable + json option" where
  "get_data j =
     (case j of
        JNull \<Rightarrow>
          Inl (JsError ''TypeError'' ''Cannot read properties of null (reading 'data')'')
      | JObj kvs \<Rightarrow> Inr (map_of kvs ''data'')
      | _ \<Rightarrow> Inr None)"

text \<open>
  \<^verbatim>\<open>fetchUsers\<close> of the srp variant. The argument is how the promise of
  \<^verbatim>\<open>fetch(url, { signal })\<close> settles; a rejected \<^verbatim>\<open>await\<close> rejects the async
  function with the same value.
\<close>

definition fetchUsers :: "response settled \<Rightarrow> json settled" where
  "fetchUsers fetched =
     (case fetched of
        Rejected e \<Rightarrow> Rejected e
      | Resolved resp \<Rightarrow>
          if \<not> ok resp
          then Rejected (JsError ''Error''
                 (''HTTP Error: '' @ show_nat (status resp) @ '' '' @ statusText resp))
          else (case json_body resp of
                  Rejected e \<Rightarrow> Rejected e
                | Resolved payload \<Rightarrow>
                    if isArray payload then Resolved payload
                    else (case get_data payload of
                            Inl e \<Rightarrow> Rejected e
                          | Inr None \<Rightarrow> Resolved (JArr [])
                          | Inr (Some d) \<Rightarrow>
                              if truthy d then Resolved d else Resolved (JArr []))))"

text \<open>\<^verbatim>\<open>UserApiService.getUsers\<close> of the dip variant.\<close>

definition getUsers :: "response settled \<Rightarrow> json settled" where
  "getUsers fetched =
     (case fetched of
        Rejected e \<Rightarrow> Rejected e
      | Resolved resp \<Rightarrow>
          if \<not> ok resp
          then Rejected (JsError ''Error'' ''Network response was not ok'')
          else json_body resp)"


section \<open>The user loader \<^verbatim>\<open>useGetUser\<close>\<close>

text \<open>
  \<^verbatim>\<open>interface UseUserResult { loading: boolean; data: User[]; errors: string[] }\<close>.
  The declared type of \<^verbatim>\<open>data\<close> is checked at compile time only; at run time the
  slot holds the value that \<^verbatim>\<open>fetchUsers\<close> resolved with, whatever JSON value that
  is, so the slot is a \<open>json\<close>.
\<close>

record UseUserResult =
  gu_loading :: bool
  gu_data :: json
  gu_errors :: "string list"

definition gu_setLoading :: "bool \<Rightarrow> UseUserResult \<Rightarrow> UseUserResult" where
  "gu_setLoading b r = r\<lparr>gu_loading := b\<rparr>"

definition gu_setData :: "json \<Rightarrow> UseUserResult \<Rightarrow> UseUserResult" where
  "gu_setData d r = r\<lparr>gu_data := d\<rparr>"

definition gu_setErrors :: "string list \<Rightarrow> UseUserResult \<Rightarrow> UseUserResult" where
  "gu_setErrors es r = r\<lparr>gu_errors := es\<rparr>"

text \<open>\<^verbatim>\<open>useState(true)\<close>, \<^verbatim>\<open>useState<User[]>([])\<close>, \<^verbatim>\<open>useState<string[]>([])\<close>\<close>

definition gu_initial :: UseUserResult where
  "gu_initial = \<lparr>gu_loading = True, gu_data = JArr [], gu_errors = []\<rparr>"

definition loadUsers_catch :: "throwable \<Rightarrow> UseUserResult stmt" where
  "loadUsers_catch e =
     (if isAbortError e then return_now
      else seq (call (gu_setErrors [errorMessage e])) (call (gu_setData (JArr []))))"

definition loadUsers_finally :: "UseUserResult stmt" where
  "loadUsers_finally = call (gu_setLoading False)"

text \<open>
  \<^verbatim>\<open>loadUsers\<close> awaits \<^verbatim>\<open>fetchUsers({ signal })\<close>, an async function, whose call
  cannot throw. Nothing is updated before the \<^verbatim>\<open>await\<close>, so the function is its
  part after the request has settled: the argument is how \<^verbatim>\<open>fetch\<close> settled, and
  \<^verbatim>\<open>fetchUsers\<close> turns it into the settlement that \<^verbatim>\<open>loadUsers\<close> sees.
\<close>

definition loadUsers :: "response settled \<Rightarrow> UseUserResult stmt" where
  "loadUsers fetched =
     try_catch_finally
       (case fetchUsers fetched of
          Resolved users \<Rightarrow> seq (call (gu_setData users)) (call (gu_setErrors []))
        | Rejected e \<Rightarrow> throw e)
       loadUsers_catch loadUsers_finally"

text \<open>
  The effect has no dependencies: it runs once, on mount. The states a consumer can see
  are the initial one and the one after the single request has settled.
\<close>

datatype progress =
    Waiting
  | Completed "response settled"

definition useGetUser :: "progress \<Rightarrow> UseUserResult" where
  "useGetUser p =
     (case p of
        Waiting \<Rightarrow> gu_initial
      | Completed fetched \<Rightarrow> snd (loadUsers fetched gu_initial))"


section \<open>Invariants of the \<^verbatim>\<open>useQuery\<close> instance\<close>

text \<open>
  Bookkeeping of the runs: a waiting run has been created, every created run has been
  aborted or is the current one, and the current one has been created.
\<close>

definition accounted :: "'a hook \<Rightarrow> bool" where
  "accounted h =
     ((\<forall>i \<in> set (awaiting h). i < controllers h) \<and>
      (\<forall>i < controllers h. i \<in> set (aborted h) \<or> current h = Some i) \<and>
      (\<forall>i. current h = Some i \<longrightarrow> i < controllers h))"



section \<open>Invariants of the \<^verbatim>\<open>useLoadData\<close> instance\<close>

text \<open>The current run, if there is one, has been created.\<close>

definition created :: "'a loader \<Rightarrow> bool" where
  "created h = (case ld_current h of None \<Rightarrow> True | Some j \<Rightarrow> j < ld_runs h)"

text \<open>
  Run \<open>i\<close> has been torn down: it exists, it is not the current run, and its flag is
  not set.
\<close>

definition torn_down :: "nat \<Rightarrow> 'a loader \<Rightarrow> bool" where
  "torn_down i h = (\<not> isMounted h i \<and> i < ld_runs h \<and> ld_current h \<noteq> Some i)"


section \<open>Properties of \<^verbatim>\<open>useQuery\<close>\<close>

lemma loadData_resume_Resolved:
  "loadData_resume (Resolved v) r = (Normal, \<lparr>loading = False, data = v, errors = []\<rparr>)"
  by (simp add: loadData_resume_def try_catch_finally_def seq_def call_def
      finally_block_def setLoading_def setData_def setErrors_def)

lemma loadData_resume_Rejected:
  "loadData_resume (Rejected e) r =
     (if isAbortError e then (Return, r\<lparr>loading := False\<rparr>)
      else (Normal, \<lparr>loading = False, data = None, errors = [errorMessage e]\<rparr>))"
  by (simp add: loadData_resume_def try_catch_finally_def seq_def call_def throw_def
      return_now_def catch_block_def finally_block_def setLoading_def setData_def
      setErrors_def)

lemma loadData_throws_eq:
  "loadData_throws e r =
     (if isAbortError e then (Return, r\<lparr>loading := False\<rparr>)
      else (Normal, \<lparr>loading = False, data = None, errors = [errorMessage e]\<rparr>))"
  by (simp add: loadData_throws_def try_catch_finally_def seq_def call_def throw_def
      return_now_def catch_block_def finally_block_def setLoading_def setData_def
      setErrors_def)


lemma settle_result:
  "i \<in> set (awaiting h) \<Longrightarrow> result (settle i out h) = snd (loadData_resume out (result h))"
  by (simp add: settle_def)

lemma settle_done: "i \<notin> set (awaiting (settle i out h))"
  by (simp add: settle_def)

lemma settle_idle: "i \<notin> set (awaiting h) \<Longrightarrow> settle i out h = h"
  by (simp add: settle_def)

lemma cancellation_keeps_data_errors:
  "cancellation out \<Longrightarrow>
     data (snd (loadData_resume out r)) = data r \<and>
     errors (snd (loadData_resume out r)) = errors r"
  by (cases out) (simp_all add: cancellation_def loadData_resume_Rejected)

lemma settle_cancellation:
  "cancellation out \<Longrightarrow>
     data (result (settle i out h)) = data (result h) \<and>
     errors (result (settle i out h)) = errors (result h)"
  by (cases "i \<in> set (awaiting h)")
    (simp_all add: settle_result settle_idle cancellation_keeps_data_errors)

text \<open>
  The scenario of a changed fetcher: the effect runs, and runs again before the first
  fetch has settled. React calls the cleanup of run 0 in between.
\<close>

lemma two_runs:
  "run [Run Returns, Run Returns] (mount :: nat hook) =
     \<lparr>result = \<lparr>loading = True, data = None, errors = []\<rparr>, controllers = 2,
      current = Some 1, aborted = [0], awaiting = [1, 0]\<rparr>"
  by (simp add: mount_def initialResult_def cleanup_def effect_def loadData_suspend_def
      call_def setLoading_def numeral_2_eq_2)

lemma abort_error_is_cancellation:
  "cancellation (Rejected (JsError ''AbortError'' m))"
  by (simp add: cancellation_def isAbortError_def)


subsection \<open>Cancellation before the fetch settles\<close>

text \<open>
  C1, as stated, fails: run 0 is cleaned up (its controller aborted) while its fetch is
  in flight; a fetcher that ignores the signal resolves later with 7, and the resolution
  overwrites all three slots.
\<close>

theorem stale_resolution_mutates_result:
  "0 \<in> set (aborted (run [Run Returns, Run Returns] (mount :: nat hook))) \<and>
   0 \<in> set (awaiting (run [Run Returns, Run Returns] (mount :: nat hook))) \<and>
   data (result (run [Run Returns, Run Returns] (mount :: nat hook))) = None \<and>
   result (settle 0 (Resolved (Some 7)) (run [Run Returns, Run Returns] (mount :: nat hook)))
     = \<lparr>loading = False, data = Some 7, errors = []\<rparr>"
  unfolding two_runs by (simp add: settle_def loadData_resume_Resolved)

text \<open>
  C1, amended: when the cleanup has been called before the fetch settles and the fetcher
  honours the signal, that is, its promise rejects with an \<^verbatim>\<open>AbortError\<close>, the
  settlement leaves \<^verbatim>\<open>data\<close> and \<^verbatim>\<open>errors\<close> as they were.
\<close>

theorem cancelled_fetch_keeps_data_and_errors:
  "i \<in> set (aborted h) \<Longrightarrow> i \<in> set (awaiting h) \<Longrightarrow> cancellation out \<Longrightarrow>
     data (result (settle i out h)) = data (result h) \<and>
     errors (result (settle i out h)) = errors (result h)"
  by (simp add: settle_cancellation)

text \<open>The amended C1 at the scenario of the changed fetcher.\<close>

theorem cancelled_fetch_keeps_data_and_errors_witness:
  "0 \<in> set (aborted (run [Run Returns, Run Returns] (mount :: nat hook))) \<and>
   0 \<in> set (awaiting (run [Run Returns, Run Returns] (mount :: nat hook))) \<and>
   cancellation (Rejected (JsError ''AbortError'' ''The operation was aborted.'') :: nat option settled) \<and>
   data (result (settle 0 (Rejected (JsError ''AbortError'' ''The operation was aborted.''))
      (run [Run Returns, Run Returns] (mount :: nat hook)))) = None \<and>
   errors (result (settle 0 (Rejected (JsError ''AbortError'' ''The operation was aborted.''))
      (run [Run Returns, Run Returns] (mount :: nat hook)))) = []"
proof -
  let ?h = "run [Run Returns, Run Returns] (mount :: nat hook)"
  let ?out = "Rejected (JsError ''AbortError'' ''The operation was aborted.'') :: nat option settled"
  have a: "0 \<in> set (aborted ?h)" unfolding two_runs by simp
  have b: "0 \<in> set (awaiting ?h)" unfolding two_runs by simp
  have c: "cancellation ?out" by (rule abort_error_is_cancellation)
  have d: "data (result ?h) = None" "errors (result ?h) = []" unfolding two_runs by simp_all
  show ?thesis
    using a b c d cancelled_fetch_keeps_data_and_errors [OF a b c] by simp
qed


subsection \<open>Superseded runs\<close>

text \<open>
  C2, as stated, fails: the effect runs twice, the second fetch resolves with 2, then the
  first fetch, whose fetcher ignored the signal, resolves with 1. Run 1 is the current
  one, and \<^verbatim>\<open>data\<close> ends as the value of run 0.
\<close>

theorem superseded_resolution_wins:
  "current (run [Run Returns, Run Returns, Settle 1 (Resolved (Some 2))] (mount :: nat hook)) = Some 1 \<and>
   data (result (run [Run Returns, Run Returns, Settle 1 (Resolved (Some 2))] (mount :: nat hook)))
     = Some 2 \<and>
   data (result (run [Run Returns, Run Returns, Settle 1 (Resolved (Some 2)), Settle 0 (Resolved (Some 1))]
      (mount :: nat hook))) = Some 1"
  by (simp add: mount_def initialResult_def cleanup_def effect_def loadData_suspend_def
      call_def setLoading_def settle_def loadData_resume_Resolved)

lemma accounted_mount: "accounted mount"
  by (simp add: accounted_def mount_def)

lemma accounted_cleanup: "accounted h \<Longrightarrow> accounted (cleanup h) \<and> current (cleanup h) = None"
  by (auto simp: accounted_def cleanup_def split: option.splits)

lemma accounted_effect: "accounted h \<Longrightarrow> current h = None \<Longrightarrow> accounted (effect c h)"
  by (cases c) (auto simp: accounted_def effect_def Let_def less_Suc_eq)

lemma accounted_settle: "accounted h \<Longrightarrow> accounted (settle i out h)"
  by (auto simp: accounted_def settle_def)

lemma accounted_step: "accounted h \<Longrightarrow> accounted (step ev h)"
  by (cases ev) (simp_all add: accounted_cleanup accounted_effect accounted_settle)

lemma accounted_run: "accounted h \<Longrightarrow> accounted (run evs h)"
  by (induction evs arbitrary: h) (simp_all add: accounted_step)

lemma superseded_is_aborted:
  assumes "accounted h" and "i \<in> set (awaiting h)" and "current h \<noteq> Some i"
  shows "i \<in> set (aborted h)"
  using assms unfolding accounted_def by blast

text \<open>
  C2, amended: in every state the hook can reach, a run that is not the most recently
  started one never sets \<^verbatim>\<open>data\<close> or \<^verbatim>\<open>errors\<close> when it settles, in whatever
  order the promises settle, provided the fetcher of an aborted run honours the signal
  (its promise rejects with an \<^verbatim>\<open>AbortError\<close>).
\<close>

theorem superseded_fetch_never_sets_data_or_errors:
  assumes "h = run evs mount"
    and "current h \<noteq> Some i"
    and "i \<in> set (aborted h) \<longrightarrow> cancellation out"
  shows "data (result (settle i out h)) = data (result h) \<and>
         errors (result (settle i out h)) = errors (result h)"
proof (cases "i \<in> set (awaiting h)")
  case True
  have "accounted h" using assms(1) by (simp add: accounted_run accounted_mount)
  then have "i \<in> set (aborted h)" using True assms(2) by (rule superseded_is_aborted)
  with assms(3) show ?thesis by (simp add: settle_cancellation)
next
  case False
  then show ?thesis by (simp add: settle_idle)
qed

text \<open>
  The amended C2 where the second fetch has resolved with 2 and the first, aborted one
  rejects afterwards: \<^verbatim>\<open>data\<close> stays the value of the second run.
\<close>

theorem superseded_fetch_never_sets_data_or_errors_witness:
  "current (run [Run Returns, Run Returns, Settle 1 (Resolved (Some 2))] (mount :: nat hook)) \<noteq> Some 0 \<and>
   0 \<in> set (aborted (run [Run Returns, Run Returns, Settle 1 (Resolved (Some 2))] (mount :: nat hook))) \<and>
   cancellation (Rejected (JsError ''AbortError'' ''aborted'') :: nat option settled) \<and>
   data (result (settle 0 (Rejected (JsError ''AbortError'' ''aborted''))
      (run [Run Returns, Run Returns, Settle 1 (Resolved (Some 2))] (mount :: nat hook)))) = Some 2 \<and>
   errors (result (settle 0 (Rejected (JsError ''AbortError'' ''aborted''))
      (run [Run Returns, Run Returns, Settle 1 (Resolved (Some 2))] (mount :: nat hook)))) = []"
proof -
  let ?h = "run [Run Returns, Run Returns, Settle 1 (Resolved (Some 2))] (mount :: nat hook)"
  let ?out = "Rejected (JsError ''AbortError'' ''aborted'') :: nat option settled"
  have h: "?h = \<lparr>result = \<lparr>loading = False, data = Some 2, errors = []\<rparr>, controllers = 2,
      current = Some 1, aborted = [0], awaiting = [0]\<rparr>"
    by (simp add: mount_def initialResult_def cleanup_def effect_def loadData_suspend_def
        call_def setLoading_def settle_def loadData_resume_Resolved numeral_2_eq_2)
  have a: "current ?h \<noteq> Some 0" unfolding h by simp
  have b: "0 \<in> set (aborted ?h) \<longrightarrow> cancellation ?out"
    by (simp add: abort_error_is_cancellation)
  have c: "0 \<in> set (aborted ?h)" "cancellation ?out"
    unfolding h by (simp_all add: abort_error_is_cancellation)
  have d: "data (result ?h) = Some 2" "errors (result ?h) = []" unfolding h by simp_all
  show ?thesis
    using a c d superseded_fetch_never_sets_data_or_errors [OF refl a b] by simp
qed


subsection \<open>Rejection with a cancellation error\<close>

text \<open>
  C3 against the code: the effect runs twice; the first fetch, aborted by the cleanup,
  rejects with an \<^verbatim>\<open>AbortError\<close>. The handler returns without touching
  \<^verbatim>\<open>data\<close> or \<^verbatim>\<open>errors\<close>, but the \<^verbatim>\<open>finally\<close> block still runs
  \<^verbatim>\<open>setLoading(false)\<close>: \<^verbatim>\<open>loading\<close> goes from true to false while the second
  fetch is still in flight.
\<close>

theorem abort_rejection_clears_loading:
  "loading (result (run [Run Returns, Run Returns] (mount :: nat hook))) \<and>
   result (run [Run Returns, Run Returns,
                Settle 0 (Rejected (JsError ''AbortError'' ''The operation was aborted.''))]
             (mount :: nat hook))
     = \<lparr>loading = False, data = None, errors = []\<rparr> \<and>
   awaiting (run [Run Returns, Run Returns,
                Settle 0 (Rejected (JsError ''AbortError'' ''The operation was aborted.''))]
             (mount :: nat hook)) = [1]"
  by (simp add: mount_def initialResult_def cleanup_def effect_def loadData_suspend_def
      call_def setLoading_def settle_def loadData_resume_Rejected isAbortError_def)


subsection \<open>Data and error messages\<close>









subsection \<open>Resolution and rejection of a fetch\<close>

text \<open>
  C5: when the fetch of a waiting run resolves with \<open>v\<close>, the result becomes
  \<^verbatim>\<open>{ loading: false, data: v, errors: [] }\<close> with \<open>v\<close> stored unchanged, also when
  \<open>v\<close> is \<^verbatim>\<open>null\<close>, and the run is finished: nothing that is reported for it
  afterwards changes the hook.
\<close>

theorem resolved_value_is_stored:
  "i \<in> set (awaiting h) \<Longrightarrow>
     result (settle i (Resolved v) h) = \<lparr>loading = False, data = v, errors = []\<rparr> \<and>
     settle i out (settle i (Resolved v) h) = settle i (Resolved v) h"
  by (simp add: settle_result settle_done settle_idle loadData_resume_Resolved)

text \<open>C5 at a hook whose first fetch resolves with 7.\<close>

theorem resolved_value_is_stored_witness:
  "(0::nat) \<in> set (awaiting (run [Run Returns] (mount :: nat hook))) \<and>
   result (settle 0 (Resolved (Some 7)) (run [Run Returns] (mount :: nat hook)))
     = \<lparr>loading = False, data = Some (7::nat), errors = []\<rparr> \<and>
   settle 0 (Rejected (NonError ''late''))
       (settle 0 (Resolved (Some 7)) (run [Run Returns] (mount :: nat hook)))
     = settle 0 (Resolved (Some 7)) (run [Run Returns] mount)"
proof -
  have a: "(0::nat) \<in> set (awaiting (run [Run Returns] (mount :: nat hook)))"
    by (simp add: mount_def cleanup_def effect_def)
  show ?thesis
    using a resolved_value_is_stored [OF a, of "Some 7" "Rejected (NonError ''late'')"] by simp
qed

text \<open>
  C6: when the fetch of a waiting run rejects with anything but a cancellation error,
  the result becomes \<^verbatim>\<open>{ loading: false, data: null, errors: [message] }\<close>, a list of
  one message: the \<^verbatim>\<open>message\<close> of an \<^verbatim>\<open>Error\<close>, the fixed text for any other
  thrown value. The run is finished afterwards.
\<close>

theorem generic_rejection_is_reported:
  "i \<in> set (awaiting h) \<Longrightarrow> \<not> isAbortError e \<Longrightarrow>
     result (settle i (Rejected e) h)
       = \<lparr>loading = False, data = None, errors = [errorMessage e]\<rparr> \<and>
     settle i out (settle i (Rejected e) h) = settle i (Rejected e) h \<and>
     errorMessage (JsError n m) = m \<and>
     errorMessage (NonError x) = ''An unknown error occurred''"
  by (simp add: settle_result settle_done settle_idle loadData_resume_Rejected errorMessage_def)

text \<open>C6 at a hook whose first fetch rejects with a \<^verbatim>\<open>TypeError\<close>.\<close>

theorem generic_rejection_is_reported_witness:
  "(0::nat) \<in> set (awaiting (run [Run Returns] (mount :: nat hook))) \<and>
   \<not> isAbortError (JsError ''TypeError'' ''Failed to fetch'') \<and>
   result (settle 0 (Rejected (JsError ''TypeError'' ''Failed to fetch''))
       (run [Run Returns] (mount :: nat hook)))
     = \<lparr>loading = False, data = None, errors = [''Failed to fetch'']\<rparr>"
proof -
  have a: "(0::nat) \<in> set (awaiting (run [Run Returns] (mount :: nat hook)))"
    by (simp add: mount_def cleanup_def effect_def)
  have b: "\<not> isAbortError (JsError ''TypeError'' ''Failed to fetch'')"
    by (simp add: isAbortError_def)
  show ?thesis
    using a b generic_rejection_is_reported [OF a b] by (simp add: errorMessage_def)
qed

text \<open>
  C7: whatever the fetcher does, throw when called, resolve, or reject with any value,
  no part of \<^verbatim>\<open>loadData\<close> completes by throwing, so its promise never rejects and
  nothing propagates out of the effect; an error that is not a cancellation ends up as
  the single entry of \<^verbatim>\<open>errors\<close>.
\<close>

theorem no_exception_leaves_loadData:
  "fst (loadData_throws e r :: completion \<times> 'a QueryResult) \<in> {Normal, Return} \<and>
   fst (loadData_suspend r) = Normal \<and>
   fst (loadData_resume out r) \<in> {Normal, Return} \<and>
   (\<not> isAbortError e \<longrightarrow>
      errors (snd (loadData_throws e r)) = [errorMessage e] \<and>
      errors (snd (loadData_resume (Rejected e) r)) = [errorMessage e])"
  by (cases out) (simp_all add: loadData_throws_eq loadData_resume_Resolved
      loadData_resume_Rejected loadData_suspend_def call_def)

text \<open>C7 at a fetcher that throws the string \<^verbatim>\<open>'boom'\<close> when it is called.\<close>

theorem no_exception_leaves_loadData_witness:
  "\<not> isAbortError (NonError ''boom'') \<and>
   fst (loadData_throws (NonError ''boom'') (initialResult :: nat QueryResult)) = Normal \<and>
   errors (snd (loadData_throws (NonError ''boom'') (initialResult :: nat QueryResult)))
     = [''An unknown error occurred'']"
proof -
  have b: "\<not> isAbortError (NonError ''boom'')" by (simp add: isAbortError_def)
  have c: "fst (loadData_throws (NonError ''boom'') (initialResult :: nat QueryResult)) \<noteq> Return"
    by (simp add: loadData_throws_eq isAbortError_def)
  show ?thesis
    using b c no_exception_leaves_loadData
      [of "NonError ''boom''" "initialResult :: nat QueryResult" "Resolved (Some 0)"]
    by (simp add: errorMessage_def)
qed


section \<open>Properties of \<^verbatim>\<open>useLoadData\<close>\<close>

lemma load_resume_unmounted: "snd (load_resume False out s) = s"
  by (cases out) (simp_all add: load_resume_def try_catch_finally_def load_catch_def
      load_finally_def skip_def throw_def)

lemma ld_settle_unmounted: "\<not> isMounted h i \<Longrightarrow> ld_state (ld_settle i out h) = ld_state h"
  by (simp add: ld_settle_def load_resume_unmounted)

lemma created_cleanup: "created (ld_cleanup h)"
  by (simp add: created_def ld_cleanup_def split: option.splits)

lemma created_effect: "created (ld_effect c h)"
  by (cases c) (simp_all add: created_def ld_effect_def Let_def)

lemma created_settle: "created h \<Longrightarrow> created (ld_settle i out h)"
  by (simp add: created_def ld_settle_def split: option.splits)

lemma created_step: "created h \<Longrightarrow> created (ld_step ev h)"
  by (cases ev) (simp_all add: created_cleanup created_effect created_settle)

lemma created_run: "created h \<Longrightarrow> created (ld_run evs h)"
  by (induction evs arbitrary: h) (simp_all add: created_step)

lemma created_mount: "created ld_mount"
  by (simp add: created_def ld_mount_def)

lemma torn_down_cleanup: "torn_down i h \<Longrightarrow> torn_down i (ld_cleanup h)"
  by (auto simp: torn_down_def ld_cleanup_def isMounted_def split: option.splits)

lemma torn_down_effect: "torn_down i h \<Longrightarrow> torn_down i (ld_effect c h)"
  by (cases c) (auto simp: torn_down_def ld_effect_def Let_def isMounted_def)

lemma torn_down_settle: "torn_down i h \<Longrightarrow> torn_down i (ld_settle j out h)"
  by (auto simp: torn_down_def ld_settle_def isMounted_def)

lemma torn_down_step: "torn_down i h \<Longrightarrow> torn_down i (ld_step ev h)"
  by (cases ev) (simp_all add: torn_down_cleanup torn_down_effect torn_down_settle)

lemma torn_down_run: "torn_down i h \<Longrightarrow> torn_down i (ld_run evs h)"
  by (induction evs arbitrary: h) (simp_all add: torn_down_step)

lemma cleanup_tears_down:
  "created h \<Longrightarrow> ld_current h = Some i \<Longrightarrow> torn_down i (ld_cleanup h)"
  by (simp add: created_def torn_down_def ld_cleanup_def isMounted_def)

text \<open>
  C9: take any state the loader can reach, with run \<open>i\<close> the current one, and call the
  cleanup. Whatever happens afterwards, and however the fetch of run \<open>i\<close> then settles,
  the settlement leaves \<^verbatim>\<open>data\<close>, \<^verbatim>\<open>loading\<close> and \<^verbatim>\<open>error\<close> as they
  are.
\<close>

theorem unmounted_fetch_changes_nothing:
  assumes "h = ld_run evs ld_mount" and "ld_current h = Some i"
  shows "ld_state (ld_settle i out (ld_run later (ld_cleanup h)))
           = ld_state (ld_run later (ld_cleanup h))"
proof -
  have "created h" using assms(1) by (simp add: created_run created_mount)
  then have "torn_down i (ld_cleanup h)" using assms(2) by (rule cleanup_tears_down)
  then have "torn_down i (ld_run later (ld_cleanup h))" by (rule torn_down_run)
  then show ?thesis by (simp add: torn_down_def ld_settle_unmounted)
qed

text \<open>
  C9 at a loader that is unmounted while its first fetch is in flight; the fetch then
  resolves with 3 and the slots keep their values.
\<close>

theorem unmounted_fetch_changes_nothing_witness:
  "ld_current (ld_run [Run Returns] (ld_mount :: nat loader)) = Some 0 \<and>
   0 \<in> set (ld_awaiting (ld_cleanup (ld_run [Run Returns] (ld_mount :: nat loader)))) \<and>
   ld_state (ld_settle 0 (Resolved (Some 3)) (ld_cleanup (ld_run [Run Returns] (ld_mount :: nat loader))))
     = \<lparr>ld_data = None, ld_loading = True, ld_error = None\<rparr>"
proof -
  let ?h = "ld_run [Run Returns] (ld_mount :: nat loader)"
  have a: "ld_current ?h = Some 0"
    by (simp add: ld_mount_def ld_cleanup_def ld_effect_def)
  have b: "0 \<in> set (ld_awaiting (ld_cleanup ?h))"
    by (simp add: ld_mount_def ld_cleanup_def ld_effect_def)
  have c: "ld_state (ld_cleanup ?h) = \<lparr>ld_data = None, ld_loading = True, ld_error = None\<rparr>"
    by (simp add: ld_mount_def ld_initial_def ld_cleanup_def ld_effect_def load_prologue_def
        seq_def call_def ld_setLoading_def ld_setError_def)
  show ?thesis
    using a b c unmounted_fetch_changes_nothing [OF refl a, of "Resolved (Some 3)" "[]"] by simp
qed


section \<open>Properties of the example fetchers\<close>

lemma fetchUsers_not_ok:
  "\<not> ok r \<Longrightarrow> fetchUsers (Resolved r) =
     Rejected (JsError ''Error'' (''HTTP Error: '' @ show_nat (status r) @ '' '' @ statusText r))"
  by (simp add: fetchUsers_def)

lemma fetchUsers_array:
  "ok r \<Longrightarrow> json_body r = Resolved (JArr xs) \<Longrightarrow> fetchUsers (Resolved r) = Resolved (JArr xs)"
  by (simp add: fetchUsers_def isArray_def)

lemma fetchUsers_object:
  "ok r \<Longrightarrow> json_body r = Resolved (JObj kvs) \<Longrightarrow>
     fetchUsers (Resolved r) =
       (case map_of kvs ''data'' of
          None \<Rightarrow> Resolved (JArr [])
        | Some d \<Rightarrow> if truthy d then Resolved d else Resolved (JArr []))"
  by (simp add: fetchUsers_def isArray_def get_data_def)

lemma getUsers_eq:
  "getUsers (Resolved r) =
     (if ok r then json_body r else Rejected (JsError ''Error'' ''Network response was not ok''))"
  by (simp add: getUsers_def)

lemma fetchUsers_never_null: "fetchUsers fetched \<noteq> Resolved JNull"
proof (cases fetched)
  case (Resolved r)
  show ?thesis
  proof (cases "json_body r")
    case (Resolved payload) note body = this
    show ?thesis
      using \<open>fetched = Resolved r\<close> body
      by (cases payload)
        (auto simp: fetchUsers_def isArray_def get_data_def truthy_def split: option.splits)
  next
    case (Rejected e)
    then show ?thesis using \<open>fetched = Resolved r\<close> by (simp add: fetchUsers_def)
  qed
next
  case (Rejected e)
  then show ?thesis by (simp add: fetchUsers_def)
qed

lemma show_nat_404: "show_nat 404 = ''404''"
  by (simp add: show_nat.simps digit_def)

lemma show_nat_503: "show_nat 503 = ''503''"
  by (simp add: show_nat.simps digit_def)

text \<open>
  C8, as stated, fails for \<^verbatim>\<open>fetchUsers\<close>: on a 200 response whose payload is the
  object \<^verbatim>\<open>{"data": ["u"], "total": 1}\<close> it resolves to the \<^verbatim>\<open>data\<close> member,
  not to the payload.
\<close>

theorem fetchUsers_unwraps_payload:
  "standard_response \<lparr>ok = True, status = 200, statusText = ''OK'',
      json_body = Resolved (JObj [(''data'', JArr [JStr ''u'']), (''total'', JNum 1)])\<rparr> \<and>
   fetchUsers (Resolved \<lparr>ok = True, status = 200, statusText = ''OK'',
      json_body = Resolved (JObj [(''data'', JArr [JStr ''u'']), (''total'', JNum 1)])\<rparr>)
     = Resolved (JArr [JStr ''u'']) \<and>
   JArr [JStr ''u''] \<noteq> JObj [(''data'', JArr [JStr ''u'']), (''total'', JNum 1)]"
  by (simp add: standard_response_def fetchUsers_object truthy_def)

text \<open>
  C8, amended: on a response with a status outside 200 to 299 both fetchers reject with
  an \<^verbatim>\<open>Error\<close>, \<^verbatim>\<open>fetchUsers\<close> with the message
  \<^verbatim>\<open>HTTP Error: <status> <statusText>\<close> and \<^verbatim>\<open>getUsers\<close> with
  \<^verbatim>\<open>Network response was not ok\<close>. On a 2xx response \<^verbatim>\<open>getUsers\<close> settles as
  \<^verbatim>\<open>response.json()\<close> does, so it resolves to the parsed payload;
  \<^verbatim>\<open>fetchUsers\<close> resolves to the payload when that is an array, to the \<^verbatim>\<open>data\<close>
  member of an object payload when that member is an array, and to the empty array when
  an object payload has no \<^verbatim>\<open>data\<close> member.
\<close>

theorem fetchers_on_http_response:
  assumes "standard_response r"
  shows "(\<not> (200 \<le> status r \<and> status r \<le> 299) \<longrightarrow>
            fetchUsers (Resolved r) = Rejected (JsError ''Error''
               (''HTTP Error: '' @ show_nat (status r) @ '' '' @ statusText r)) \<and>
            getUsers (Resolved r) = Rejected (JsError ''Error'' ''Network response was not ok'')) \<and>
         (200 \<le> status r \<and> status r \<le> 299 \<longrightarrow>
            getUsers (Resolved r) = json_body r \<and>
            (json_body r = Resolved (JArr xs) \<longrightarrow>
               fetchUsers (Resolved r) = Resolved (JArr xs)) \<and>
            (json_body r = Resolved (JObj kvs) \<and> map_of kvs ''data'' = Some (JArr xs) \<longrightarrow>
               fetchUsers (Resolved r) = Resolved (JArr xs)) \<and>
            (json_body r = Resolved (JObj kvs) \<and> map_of kvs ''data'' = None \<longrightarrow>
               fetchUsers (Resolved r) = Resolved (JArr [])))"
proof (cases "ok r")
  case True
  then have in_range: "200 \<le> status r \<and> status r \<le> 299"
    using assms by (simp add: standard_response_def)
  have "getUsers (Resolved r) = json_body r"
    using True by (simp add: getUsers_eq)
  moreover have "json_body r = Resolved (JArr xs) \<longrightarrow>
      fetchUsers (Resolved r) = Resolved (JArr xs)"
    using True by (simp add: fetchUsers_array)
  moreover have "json_body r = Resolved (JObj kvs) \<and> map_of kvs ''data'' = Some (JArr xs) \<longrightarrow>
      fetchUsers (Resolved r) = Resolved (JArr xs)"
    using True by (simp add: fetchUsers_object truthy_def)
  moreover have "json_body r = Resolved (JObj kvs) \<and> map_of kvs ''data'' = None \<longrightarrow>
      fetchUsers (Resolved r) = Resolved (JArr [])"
    using True by (simp add: fetchUsers_object)
  ultimately show ?thesis using in_range by blast
next
  case False
  then have out_of_range: "\<not> (200 \<le> status r \<and> status r \<le> 299)"
    using assms by (simp add: standard_response_def)
  have "fetchUsers (Resolved r) = Rejected (JsError ''Error''
      (''HTTP Error: '' @ show_nat (status r) @ '' '' @ statusText r))"
    using False by (rule fetchUsers_not_ok)
  moreover have "getUsers (Resolved r) = Rejected (JsError ''Error'' ''Network response was not ok'')"
    using False by (simp add: getUsers_eq)
  ultimately show ?thesis using out_of_range by blast
qed

text \<open>The amended C8 on a 404 response and on a 200 response with an array payload.\<close>

theorem fetchers_on_http_response_witness:
  "standard_response \<lparr>ok = False, status = 404, statusText = ''Not Found'',
      json_body = Resolved JNull\<rparr> \<and>
   fetchUsers (Resolved \<lparr>ok = False, status = 404, statusText = ''Not Found'',
      json_body = Resolved JNull\<rparr>) = Rejected (JsError ''Error'' ''HTTP Error: 404 Not Found'') \<and>
   getUsers (Resolved \<lparr>ok = False, status = 404, statusText = ''Not Found'',
      json_body = Resolved JNull\<rparr>) = Rejected (JsError ''Error'' ''Network response was not ok'') \<and>
   standard_response \<lparr>ok = True, status = 200, statusText = ''OK'',
      json_body = Resolved (JArr [JStr ''u''])\<rparr> \<and>
   fetchUsers (Resolved \<lparr>ok = True, status = 200, statusText = ''OK'',
      json_body = Resolved (JArr [JStr ''u''])\<rparr>) = Resolved (JArr [JStr ''u'']) \<and>
   getUsers (Resolved \<lparr>ok = True, status = 200, statusText = ''OK'',
      json_body = Resolved (JArr [JStr ''u''])\<rparr>) = Resolved (JArr [JStr ''u''])"
proof -
  let ?bad = "\<lparr>ok = False, status = 404, statusText = ''Not Found'', json_body = Resolved JNull\<rparr>"
  let ?good = "\<lparr>ok = True, status = 200, statusText = ''OK'',
      json_body = Resolved (JArr [JStr ''u''])\<rparr>"
  have a: "standard_response ?bad" by (simp add: standard_response_def)
  have b: "standard_response ?good" by (simp add: standard_response_def)
  show ?thesis
    using a b fetchers_on_http_response [OF a, of "[]" "[]"]
      fetchers_on_http_response [OF b, of "[JStr ''u'']" "[]"]
    by (simp add: show_nat_404)
qed


section \<open>Properties of \<^verbatim>\<open>useGetUser\<close>\<close>

lemma loadUsers_eq:
  "loadUsers fetched s =
     (case fetchUsers fetched of
        Resolved users \<Rightarrow> (Normal, \<lparr>gu_loading = False, gu_data = users, gu_errors = []\<rparr>)
      | Rejected e \<Rightarrow>
          if isAbortError e then (Return, s\<lparr>gu_loading := False\<rparr>)
          else (Normal, \<lparr>gu_loading = False, gu_data = JArr [], gu_errors = [errorMessage e]\<rparr>))"
  by (cases "fetchUsers fetched")
    (simp_all add: loadUsers_def try_catch_finally_def seq_def call_def throw_def
      return_now_def loadUsers_catch_def loadUsers_finally_def gu_setLoading_def
      gu_setData_def gu_setErrors_def)

text \<open>
  What holds of \<^verbatim>\<open>data\<close> in every state: it starts as the empty array, an error that
  is not a cancellation resets it to the empty array, and it is never null.
\<close>

lemma useGetUser_initial_data: "gu_data (useGetUser Waiting) = JArr []"
  by (simp add: useGetUser_def gu_initial_def)

lemma loadUsers_error_resets_data:
  "fetchUsers fetched = Rejected e \<Longrightarrow> \<not> isAbortError e \<Longrightarrow>
     gu_data (snd (loadUsers fetched s)) = JArr []"
  by (simp add: loadUsers_eq)

lemma useGetUser_data_never_null: "gu_data (useGetUser p) \<noteq> JNull"
proof (cases p)
  case Waiting
  then show ?thesis by (simp add: useGetUser_initial_data)
next
  case (Completed fetched)
  have "fetchUsers fetched \<noteq> Resolved JNull" by (rule fetchUsers_never_null)
  then show ?thesis using Completed
    by (cases "fetchUsers fetched") (simp_all add: useGetUser_def loadUsers_eq gu_initial_def)
qed

text \<open>
  C10 against the code: the server answers 200 with the payload
  \<^verbatim>\<open>{"data": "abc"}\<close>. The payload is not an array and its \<^verbatim>\<open>data\<close> member is
  truthy, so \<^verbatim>\<open>fetchUsers\<close> resolves with the string, and \<^verbatim>\<open>loadUsers\<close> stores
  it: \<^verbatim>\<open>data\<close> is then a string, not an array.
\<close>

theorem useGetUser_stores_non_array:
  "fetchUsers (Resolved \<lparr>ok = True, status = 200, statusText = ''OK'',
      json_body = Resolved (JObj [(''data'', JStr ''abc'')])\<rparr>) = Resolved (JStr ''abc'') \<and>
   useGetUser (Completed (Resolved \<lparr>ok = True, status = 200, statusText = ''OK'',
      json_body = Resolved (JObj [(''data'', JStr ''abc'')])\<rparr>))
     = \<lparr>gu_loading = False, gu_data = JStr ''abc'', gu_errors = []\<rparr> \<and>
   \<not> isArray (JStr ''abc'')"
  by (simp add: useGetUser_def loadUsers_eq fetchUsers_object truthy_def isArray_def)

end
